theory Spec2Isabelle
  imports Main "HOL-Library.Sublist"
begin

section \<open>The package descriptor of sonic-chassisd\<close>

text \<open>
  The repository's only source file, \<^verbatim>\<open>sonic-chassisd/setup.py\<close>, is one call of
  \<^verbatim>\<open>setup\<close> with twelve keyword arguments, each a literal. The record below has one
  field per keyword argument, in the order of the source, with the source's names;
  Python's \<^verbatim>\<open>str\<close> is \<open>string\<close> (every literal of the file is ASCII, so bytes and
  code points coincide) and a Python list of \<^verbatim>\<open>str\<close> is a \<open>string list\<close>.
\<close>

record descriptor =
  name :: string
  version :: string
  description :: string
  license :: string
  author :: string
  author_email :: string
  url :: string
  maintainer :: string
  maintainer_email :: string
  scripts :: "string list"
  classifiers :: "string list"
  "keywords" :: string

text \<open>The arguments of the call, lines 3 to 29 of the source, literal by literal.\<close>

definition setup_call :: descriptor where
  "setup_call =
     \<lparr> name = ''sonic-chassisd'',
       version = ''1.0'',
       description = ''Chassis daemon for SONiC'',
       license = ''Apache 2.0'',
       author = ''SONiC Team'',
       author_email = ''linuxnetdev@microsoft.com'',
       url = ''https://github.com/Azure/sonic-platform-daemons'',
       maintainer = ''Manju Prabhu'',
       maintainer_email = ''manjunath.prabhu@nokia.com'',
       scripts = [
         ''scripts/chassisd''
       ],
       classifiers = [
         ''Development Status :: 4 - Beta'',
         ''Environment :: No Input/Output (Daemon)'',
         ''Intended Audience :: Developers'',
         ''Intended Audience :: Information Technology'',
         ''Intended Audience :: System Administrators'',
         ''License :: OSI Approved :: Apache Software License'',
         ''Natural Language :: English'',
         ''Operating System :: POSIX :: Linux'',
         ''Programming Language :: Python :: 2.7'',
         ''Topic :: System :: Hardware''
       ],
       keywords = ''sonic SONiC chassis Chassis daemon chassisd'' \<rparr>"

section \<open>String operations named by the specification\<close>

text \<open>
  The source computes nothing: it only passes literals. The properties stated of the
  descriptor speak of splitting a string at a separator, of a string containing a
  separator, of the last component of a path and of the shape of a URL. These are the
  operations of Python's own library, modelled here so that each property can be
  evaluated on the literals of the call.
\<close>

datatype py_error = ValueError

text \<open>
  \<^verbatim>\<open>s.split(sep)\<close>: scan \<open>s\<close> from the left; at each occurrence of \<open>sep\<close> close the
  current piece and continue after the occurrence; the end of \<open>s\<close> closes the last
  piece, so the result is never empty. \<open>cur\<close> holds the current piece reversed.
\<close>

function split_from :: "string \<Rightarrow> string \<Rightarrow> string \<Rightarrow> string list" where
  "split_from sep cur [] = [rev cur]"
| "split_from sep cur (c # cs) =
     (if sep \<noteq> [] \<and> prefix sep (c # cs)
      then rev cur # split_from sep [] (drop (length sep) (c # cs))
      else split_from sep (c # cur) cs)"
  by pat_completeness auto
termination
  by (relation "measure (\<lambda>(sep, cur, s). length s)") auto

text \<open>Python raises \<^verbatim>\<open>ValueError\<close> for the empty separator.\<close>

definition str_split :: "string \<Rightarrow> string \<Rightarrow> py_error + string list" where
  "str_split s sep = (if sep = [] then Inl ValueError else Inr (split_from sep [] s))"

text \<open>The keyword tags of a descriptor: the pieces of \<open>keywords\<close> between spaces, as a set.\<close>

definition keyword_tags :: "descriptor \<Rightarrow> string set" where
  "keyword_tags d = (case str_split (keywords d) '' '' of Inl e \<Rightarrow> {} | Inr ws \<Rightarrow> set ws)"

text \<open>
  A classifier is \<^verbatim>\<open>Category :: ... :: Value\<close>: its pieces between the separator
  \<^verbatim>\<open>' :: '\<close>. \<open>category\<close> is the first piece (\<open>split_from\<close> never returns the empty
  list, so \<open>hd\<close> is applied to a non-empty list only), and a classifier has the
  shape when it has at least two pieces, none of them empty.
\<close>

definition category :: "string \<Rightarrow> string" where
  "category c = hd (split_from '' :: '' [] c)"

definition classifier_shape :: "string \<Rightarrow> bool" where
  "classifier_shape c =
     (case str_split c '' :: '' of
        Inl e \<Rightarrow> False
      | Inr ps \<Rightarrow> 2 \<le> length ps \<and> list_all (\<lambda>p. p \<noteq> []) ps)"

text \<open>\<^verbatim>\<open>os.path.basename(p)\<close> on POSIX: what follows the last slash of \<open>p\<close>.\<close>

definition basename :: "string \<Rightarrow> string" where
  "basename p = rev (takeWhile (\<lambda>c. c \<noteq> CHR ''/'') (rev p))"

text \<open>
  An absolute URL in the sense of RFC 3986 with an authority: a scheme (a letter, then
  letters, digits, \<^verbatim>\<open>+\<close>, \<^verbatim>\<open>-\<close> or \<^verbatim>\<open>.\<close>), the separator \<^verbatim>\<open>://\<close>, a non-empty authority
  up to the next \<^verbatim>\<open>/\<close>, \<^verbatim>\<open>?\<close> or \<^verbatim>\<open>#\<close>, and visible ASCII characters only.
\<close>

definition is_alpha :: "char \<Rightarrow> bool" where
  "is_alpha c = (let n = (of_char c :: nat) in (65 \<le> n \<and> n \<le> 90) \<or> (97 \<le> n \<and> n \<le> 122))"

definition is_digit :: "char \<Rightarrow> bool" where
  "is_digit c = (let n = (of_char c :: nat) in 48 \<le> n \<and> n \<le> 57)"

definition is_visible :: "char \<Rightarrow> bool" where
  "is_visible c = (let n = (of_char c :: nat) in 33 \<le> n \<and> n \<le> 126)"

definition url_scheme :: "string \<Rightarrow> string" where
  "url_scheme s = takeWhile (\<lambda>c. c \<noteq> CHR '':'') s"

definition url_authority :: "string \<Rightarrow> string" where
  "url_authority s = takeWhile (\<lambda>c. c \<notin> set ''/?#'') (drop (length (url_scheme s) + 3) s)"

definition absolute_url :: "string \<Rightarrow> bool" where
  "absolute_url s =
     (case url_scheme s of
        [] \<Rightarrow> False
      | c # cs \<Rightarrow>
          is_alpha c \<and> list_all (\<lambda>x. is_alpha x \<or> is_digit x \<or> x \<in> set ''+-.'') cs
          \<and> prefix ''://'' (drop (length (url_scheme s)) s)
          \<and> url_authority s \<noteq> []
          \<and> list_all is_visible s)"

section \<open>Field values\<close>

text \<open>
  Claim C2. The \<open>scripts\<close> field is a sequence of string paths with exactly one entry,
  and that entry is \<open>scripts/chassisd\<close>.
\<close>

theorem scripts_single_entry:
  "scripts setup_call = [''scripts/chassisd''] \<and> length (scripts setup_call) = 1"
  by (simp add: setup_call_def)

text \<open>
  The \<open>name\<close> field is \<open>sonic-chassisd\<close> and the \<open>version\<close> field is \<open>1.0\<close>. The call
  fixes these two values only: how a package index keys its units by them is outside
  the source.
\<close>

lemma name_and_version_fields:
  "name setup_call = ''sonic-chassisd'' \<and> version setup_call = ''1.0''"
  by (simp add: setup_call_def)

text \<open>
  Claim C6. The descriptive and contact fields have the values of the interface table:
  description, license, author and its address, maintainer and its address.
\<close>

theorem descriptive_and_contact_fields:
  "description setup_call = ''Chassis daemon for SONiC'' \<and>
   license setup_call = ''Apache 2.0'' \<and>
   author setup_call = ''SONiC Team'' \<and>
   author_email setup_call = ''linuxnetdev@microsoft.com'' \<and>
   maintainer setup_call = ''Manju Prabhu'' \<and>
   maintainer_email setup_call = ''manjunath.prabhu@nokia.com''"
  by (simp add: setup_call_def)

section \<open>The homepage URL\<close>

text \<open>
  Claim C5, as stated: the \<open>url\<close> field is the string of the interface table,
  \<open>github.com/Azure/sonic-platform-daemons\<close>. The call passes another string.
\<close>

theorem url_table_value_counterexample:
  "url setup_call \<noteq> ''github.com/Azure/sonic-platform-daemons''"
  by (simp add: setup_call_def)

text \<open>
  Claim C5, amended. The \<open>url\<close> field is the string of the interface table preceded by
  the scheme prefix \<open>https://\<close>, that is
  \<open>https://github.com/Azure/sonic-platform-daemons\<close>.
\<close>

theorem url_table_value_with_scheme:
  "url setup_call = ''https://'' @ ''github.com/Azure/sonic-platform-daemons'' \<and>
   drop (length ''https://'') (url setup_call) = ''github.com/Azure/sonic-platform-daemons''"
  by (simp add: setup_call_def)

text \<open>The string of the interface table has no scheme, so it is not an absolute URL.\<close>

lemma table_url_not_absolute:
  "\<not> absolute_url ''github.com/Azure/sonic-platform-daemons''"
  by (simp add: absolute_url_def url_scheme_def url_authority_def
      is_alpha_def is_digit_def is_visible_def)

text \<open>
  Claim C9. The \<open>url\<close> field is a well-formed absolute URL that begins with the scheme
  prefix \<open>https://\<close>; its value is \<open>https://github.com/Azure/sonic-platform-daemons\<close>,
  with scheme \<open>https\<close> and authority \<open>github.com\<close>.
\<close>

theorem url_absolute_https:
  "prefix ''https://'' (url setup_call) \<and>
   url setup_call = ''https://github.com/Azure/sonic-platform-daemons'' \<and>
   absolute_url (url setup_call) \<and>
   url_scheme (url setup_call) = ''https'' \<and>
   url_authority (url setup_call) = ''github.com''"
  by (simp add: setup_call_def absolute_url_def url_scheme_def url_authority_def
      is_alpha_def is_digit_def is_visible_def)

section \<open>Keywords\<close>

text \<open>
  Claim C8. The \<open>keywords\<close> field is the single string
  \<open>sonic SONiC chassis Chassis daemon chassisd\<close>; splitting it at spaces gives exactly
  the tags sonic, SONiC, chassis, Chassis, daemon, chassisd, in this order, and these
  six pairwise different tags are the set of keyword tags of the descriptor.
\<close>

theorem keywords_split_tags:
  "keywords setup_call = ''sonic SONiC chassis Chassis daemon chassisd'' \<and>
   str_split (keywords setup_call) '' '' =
     Inr [''sonic'', ''SONiC'', ''chassis'', ''Chassis'', ''daemon'', ''chassisd''] \<and>
   keyword_tags setup_call =
     {''sonic'', ''SONiC'', ''chassis'', ''Chassis'', ''daemon'', ''chassisd''} \<and>
   card (keyword_tags setup_call) = 6"
  by (simp add: setup_call_def keyword_tags_def str_split_def)

section \<open>Classifiers\<close>

text \<open>
  The categories of the classifiers, in the order of their first occurrence: development
  status, environment, intended audience, license, natural language, operating system,
  programming language, topic.
\<close>

lemma classifier_categories:
  "remdups (map category (classifiers setup_call)) =
     [''Development Status'', ''Environment'', ''Intended Audience'', ''License'',
      ''Natural Language'', ''Operating System'', ''Programming Language'', ''Topic'']"
  by (simp add: setup_call_def category_def)

text \<open>
  Claim C10. The \<open>classifiers\<close> list has exactly 10 strings, pairwise distinct; each
  contains the separator \<^verbatim>\<open>' :: '\<close> and is of the form \<^verbatim>\<open>Category :: ... :: Value\<close>: at
  least two pieces between separators, none empty.
\<close>

theorem classifiers_ten_distinct_shaped:
  "length (classifiers setup_call) = 10 \<and>
   distinct (classifiers setup_call) \<and>
   list_all (sublist '' :: '') (classifiers setup_call) \<and>
   list_all classifier_shape (classifiers setup_call)"
  by (simp add: setup_call_def sublist_Cons_right classifier_shape_def str_split_def)

section \<open>The installed script\<close>

text \<open>
  The file name under which the one declared script is installed: the last component of
  its path.
\<close>

lemma script_basenames:
  "map basename (scripts setup_call) = [''chassisd'']"
  by (simp add: setup_call_def basename_def)

end
